theory Spec2Isabelle
  imports Complex_Main
begin

section \<open>SkillLedger: the skill scoring engine\<close>

text \<open>
  A shallow embedding of \<^verbatim>\<open>utils/skillScoring.js\<close>, of the method
  \<^verbatim>\<open>updateCredibilityScore\<close> of \<^verbatim>\<open>models/User.js\<close> and of the pre-save hook of
  \<^verbatim>\<open>models/Submission.js\<close>.

  JavaScript numbers are modelled as exact reals: \<open>+\<close>, \<open>*\<close>, \<open>/\<close>, \<open>Math.min\<close> and
  \<open>Math.max\<close> are the operations of \<open>real\<close>, so the rounding error of IEEE doubles is
  not part of the model: a statement here about the order of two results is a statement
  about the code only where the exact results differ by more than that error. The one
  input without an upper bound in the schema is \<open>yearsOfExperience\<close>; it enters the
  weights of the overall score, and there each operation yields a \<open>number\<close>, which is
  a real, an infinity or \<open>NaN\<close>, so that overflow, \<open>Infinity / Infinity\<close> and a zero
  divisor are part of the model. An overall score that is not finite is the error value
  \<open>NotFinite\<close>. Dates are integers, the number of
  milliseconds since the epoch, and \<open>Date.now()\<close> is the parameter \<open>now\<close>, which has one
  value during a call. The document store is a record of four collections, each a list of
  documents; a query filters the list, \<open>populate\<close> looks the referenced document up and
  yields \<open>None\<close> (JavaScript \<open>null\<close>) when there is none, and reading a field of
  \<open>null\<close> is the error value \<open>TypeError\<close>.
\<close>

subsection \<open>Documents\<close>

text \<open>An element of \<^verbatim>\<open>user.skills\<close>.\<close>

record userSkill =
  skill :: nat
  proficiencyLevel :: real
  yearsOfExperience :: real
  isVerified :: bool
  credibilityScore :: real
  lastUpdated :: int

text \<open>A user document: \<^verbatim>\<open>_id\<close>, \<^verbatim>\<open>skills\<close> and the overall \<^verbatim>\<open>credibilityScore\<close>.\<close>

record user =
  user_id :: nat
  skills :: "userSkill list"
  user_credibilityScore :: real

text \<open>A challenge document: \<^verbatim>\<open>_id\<close>, \<^verbatim>\<open>skill\<close>, \<^verbatim>\<open>difficulty\<close>, \<^verbatim>\<open>passingScore\<close>.\<close>

record challenge =
  challenge_id :: nat
  challenge_skill :: nat
  difficulty :: string
  passingScore :: real

text \<open>
  A submission document: \<^verbatim>\<open>user\<close>, \<^verbatim>\<open>challenge\<close> (a reference, or null), \<^verbatim>\<open>score\<close>,
  \<^verbatim>\<open>isPassed\<close>, \<^verbatim>\<open>isVerified\<close>, \<^verbatim>\<open>submittedAt\<close>.
\<close>

record submission =
  submission_user :: nat
  submission_challenge :: "nat option"
  score :: real
  isPassed :: bool
  submission_isVerified :: bool
  submittedAt :: int

text \<open>
  An endorsement document: \<^verbatim>\<open>endorser\<close>, \<^verbatim>\<open>recipient\<close>, \<^verbatim>\<open>skill\<close>, \<^verbatim>\<open>level\<close>,
  \<^verbatim>\<open>weight\<close>, \<^verbatim>\<open>isValid\<close>.
\<close>

record endorsement =
  endorser :: nat
  recipient :: nat
  endorsement_skill :: nat
  level :: string
  weight :: real
  isValid :: bool

record db =
  users :: "user list"
  challenges :: "challenge list"
  submissions :: "submission list"
  endorsements :: "endorsement list"

datatype error = TypeError | NotFinite

subsection \<open>Library functions of the platform\<close>

text \<open>\<^verbatim>\<open>Math.round\<close>: the nearest integer, a tie going up.\<close>

definition Math_round :: "real \<Rightarrow> real" where
  "Math_round x = of_int \<lfloor>x + 1 / 2\<rfloor>"

text \<open>\<^verbatim>\<open>User.findById\<close>.\<close>

definition findById :: "db \<Rightarrow> nat \<Rightarrow> user option" where
  "findById d i = find (\<lambda>u. user_id u = i) (users d)"

text \<open>\<^verbatim>\<open>populate('challenge')\<close> on a submission.\<close>

definition populate_challenge :: "db \<Rightarrow> submission \<Rightarrow> challenge option" where
  "populate_challenge d s =
     (case submission_challenge s of
        None \<Rightarrow> None
      | Some c \<Rightarrow> find (\<lambda>ch. challenge_id ch = c) (challenges d))"

text \<open>\<^verbatim>\<open>populate('endorser')\<close> on an endorsement.\<close>

definition populate_endorser :: "db \<Rightarrow> endorsement \<Rightarrow> user option" where
  "populate_endorser d e = findById d (endorser e)"

text \<open>\<^verbatim>\<open>user.save()\<close>: the stored document with this \<^verbatim>\<open>_id\<close> is replaced.\<close>

definition save :: "db \<Rightarrow> user \<Rightarrow> db" where
  "save d u = d\<lparr>users := map (\<lambda>v. if user_id v = user_id u then u else v) (users d)\<rparr>"

subsection \<open>Configuration\<close>

definition LEVEL_VALUES :: "(string \<times> real) list" where
  "LEVEL_VALUES =
     [(''beginner'', 1), (''intermediate'', 2), (''advanced'', 3), (''expert'', 4)]"

definition DIFFICULTY_MULTIPLIERS :: "(string \<times> real) list" where
  "DIFFICULTY_MULTIPLIERS =
     [(''easy'', 1), (''medium'', 3 / 2), (''hard'', 2), (''expert'', 3)]"

text \<open>
  \<^verbatim>\<open>TABLE[key] || 1\<close>: no entry of either table is zero. The keys are strings that
  the schema admits (the enums of \<^verbatim>\<open>difficulty\<close> and \<^verbatim>\<open>level\<close>); a property that a
  JavaScript object inherits, such as \<^verbatim>\<open>constructor\<close>, is not a key of the model.
\<close>

definition lookup_or_1 :: "(string \<times> real) list \<Rightarrow> string \<Rightarrow> real" where
  "lookup_or_1 table k = (case map_of table k of Some v \<Rightarrow> v | None \<Rightarrow> 1)"

subsection \<open>calculateChallengeScore\<close>

text \<open>The body of the loop for one submission whose challenge \<open>c\<close> is of the skill.\<close>

definition submission_points :: "int \<Rightarrow> submission \<Rightarrow> challenge \<Rightarrow> real" where
  "submission_points now s c =
     (let difficultyMultiplier = lookup_or_1 DIFFICULTY_MULTIPLIERS (difficulty c);
          score0 = 40 + (score s / 100) * 30;
          score1 = score0 * difficultyMultiplier;
          daysSinceSubmission = real_of_int (now - submittedAt s) / (1000 * 60 * 60 * 24);
          recencyFactor = max 0 (1 - daysSinceSubmission / 365)
      in score1 + recencyFactor * 20)"

text \<open>The loop, with its two accumulators \<^verbatim>\<open>totalScore\<close> and \<^verbatim>\<open>maxPossibleScore\<close>.\<close>

fun challenge_loop ::
  "db \<Rightarrow> int \<Rightarrow> nat \<Rightarrow> submission list \<Rightarrow> real \<Rightarrow> real \<Rightarrow> error + (real \<times> real)" where
  "challenge_loop d now skillId [] totalScore maxPossibleScore =
     Inr (totalScore, maxPossibleScore)"
| "challenge_loop d now skillId (s # ss) totalScore maxPossibleScore =
     (case populate_challenge d s of
        None \<Rightarrow> Inl TypeError
      | Some c \<Rightarrow>
          if challenge_skill c \<noteq> skillId
          then challenge_loop d now skillId ss totalScore maxPossibleScore
          else challenge_loop d now skillId ss
                 (totalScore + submission_points now s c)
                 (maxPossibleScore
                    + 100 * lookup_or_1 DIFFICULTY_MULTIPLIERS (difficulty c)))"

definition find_submissions :: "db \<Rightarrow> nat \<Rightarrow> submission list" where
  "find_submissions d userId =
     filter (\<lambda>s. submission_user s = userId \<and> submission_isVerified s \<and> isPassed s)
       (submissions d)"

definition calculateChallengeScore :: "db \<Rightarrow> int \<Rightarrow> nat \<Rightarrow> nat \<Rightarrow> error + real" where
  "calculateChallengeScore d now userId skillId =
     (let subs = find_submissions d userId
      in if length subs = 0 then Inr 0
         else case challenge_loop d now skillId subs 0 0 of
                Inl e \<Rightarrow> Inl e
              | Inr (totalScore, maxPossibleScore) \<Rightarrow>
                  Inr (if maxPossibleScore > 0
                       then min ((totalScore / maxPossibleScore) * 100) 100
                       else 0))"

subsection \<open>calculateEndorsementScore\<close>

text \<open>The loop, with its accumulators \<^verbatim>\<open>totalLevelScore\<close> and \<^verbatim>\<open>totalWeightScore\<close>.\<close>

fun endorsement_loop ::
  "db \<Rightarrow> endorsement list \<Rightarrow> real \<Rightarrow> real \<Rightarrow> error + (real \<times> real)" where
  "endorsement_loop d [] totalLevelScore totalWeightScore =
     Inr (totalLevelScore, totalWeightScore)"
| "endorsement_loop d (e # es) totalLevelScore totalWeightScore =
     (case populate_endorser d e of
        None \<Rightarrow> Inl TypeError
      | Some u \<Rightarrow>
          endorsement_loop d es
            (totalLevelScore + lookup_or_1 LEVEL_VALUES (level e))
            (totalWeightScore + user_credibilityScore u * weight e))"

definition find_endorsements :: "db \<Rightarrow> nat \<Rightarrow> nat \<Rightarrow> endorsement list" where
  "find_endorsements d userId skillId =
     filter (\<lambda>e. recipient e = userId \<and> endorsement_skill e = skillId \<and> isValid e)
       (endorsements d)"

definition calculateEndorsementScore :: "db \<Rightarrow> nat \<Rightarrow> nat \<Rightarrow> error + real" where
  "calculateEndorsementScore d userId skillId =
     (let es = find_endorsements d userId skillId
      in if length es = 0 then Inr 0
         else case endorsement_loop d es 0 0 of
                Inl e \<Rightarrow> Inl e
              | Inr (totalLevelScore, totalWeightScore) \<Rightarrow>
                  (let maxLevelScore = real (length es) * 4;
                       maxWeightScore = real (length es) * 100;
                       normalizedLevel = (totalLevelScore / maxLevelScore) * 50;
                       normalizedWeight = (totalWeightScore / maxWeightScore) * 30;
                       countBonus = min (real (length es) * 2) 20
                   in Inr (min (normalizedLevel + normalizedWeight + countBonus) 100)))"

subsection \<open>calculateProficiencyScore and calculateTimeDecay\<close>

text \<open>\<^verbatim>\<open>user.skills.find(s => s.skill.toString() === skillId.toString())\<close>.\<close>

definition find_skill :: "user \<Rightarrow> nat \<Rightarrow> userSkill option" where
  "find_skill u skillId = find (\<lambda>s. skill s = skillId) (skills u)"

definition calculateProficiencyScore :: "db \<Rightarrow> nat \<Rightarrow> nat \<Rightarrow> real" where
  "calculateProficiencyScore d userId skillId =
     (case findById d userId of
        None \<Rightarrow> 0
      | Some u \<Rightarrow>
          (case find_skill u skillId of
             None \<Rightarrow> 0
           | Some us \<Rightarrow>
               (let score0 = 25 + (proficiencyLevel us / 10) * 50;
                    experienceBonus = min (yearsOfExperience us) 10 / 10 * 25
                in min (score0 + experienceBonus) 100)))"

definition calculateTimeDecay :: "db \<Rightarrow> int \<Rightarrow> nat \<Rightarrow> nat \<Rightarrow> real" where
  "calculateTimeDecay d now userId skillId =
     (case findById d userId of
        None \<Rightarrow> 1
      | Some u \<Rightarrow>
          (case find_skill u skillId of
             None \<Rightarrow> 1
           | Some us \<Rightarrow>
               (let daysSinceUpdate =
                      real_of_int (now - lastUpdated us) / (1000 * 60 * 60 * 24)
                in if daysSinceUpdate < 90 then 1
                   else (let decay = 1 - ((daysSinceUpdate - 90) / (365 * 2))
                         in max (1 / 2) (min decay 1)))))"

subsection \<open>calculateSkillCredibility\<close>

record credibility =
  totalScore :: real
  challengeScore :: real
  endorsementScore :: real
  proficiencyScore :: real
  decayFactor :: real
  result_isVerified :: bool
  result_error :: "error option"

text \<open>The value of the \<^verbatim>\<open>catch\<close> branch.\<close>

definition failed :: "error \<Rightarrow> credibility" where
  "failed e =
     \<lparr>totalScore = 0, challengeScore = 0, endorsementScore = 0, proficiencyScore = 0,
      decayFactor = 1, result_isVerified = False, result_error = Some e\<rparr>"

definition calculateSkillCredibility :: "db \<Rightarrow> int \<Rightarrow> nat \<Rightarrow> nat \<Rightarrow> credibility" where
  "calculateSkillCredibility d now userId skillId =
     (case calculateChallengeScore d now userId skillId of
        Inl e \<Rightarrow> failed e
      | Inr cs \<Rightarrow>
          (case calculateEndorsementScore d userId skillId of
             Inl e \<Rightarrow> failed e
           | Inr es \<Rightarrow>
               (let ps = calculateProficiencyScore d userId skillId;
                    df = calculateTimeDecay d now userId skillId;
                    total = Math_round ((cs * (4 / 10) + es * (35 / 100) + ps * (25 / 100)) * df)
                in \<lparr>totalScore = min total 100, challengeScore = cs, endorsementScore = es,
                    proficiencyScore = ps, decayFactor = df,
                    result_isVerified = (cs \<ge> 30 \<or> es \<ge> 40), result_error = None\<rparr>)))"

subsection \<open>Numbers that may leave the range of doubles\<close>

text \<open>
  The value of an arithmetic expression in JavaScript: a finite number, an infinity or
  \<open>NaN\<close>. The largest finite double is \<open>2 ^ 1024 - 2 ^ 971\<close>, and a result of
  magnitude \<open>2 ^ 1024 - 2 ^ 970\<close> or more rounds to an infinity. Rounding inside the range
  is not modelled, and the zero of the model is the positive zero (the accumulators of
  the loops below start at \<open>0\<close>, and a sum is the negative zero only when both summands
  are).
\<close>

datatype number = Finite real | PosInfinity | NegInfinity | NaN

definition overflow_bound :: real where
  "overflow_bound = 2 ^ 1024 - 2 ^ 970"

definition to_number :: "real \<Rightarrow> number" where
  "to_number x =
     (if overflow_bound \<le> x then PosInfinity
      else if x \<le> - overflow_bound then NegInfinity
      else Finite x)"

fun js_add :: "number \<Rightarrow> number \<Rightarrow> number" where
  "js_add (Finite x) (Finite y) = to_number (x + y)"
| "js_add NaN y = NaN"
| "js_add x NaN = NaN"
| "js_add PosInfinity NegInfinity = NaN"
| "js_add NegInfinity PosInfinity = NaN"
| "js_add PosInfinity y = PosInfinity"
| "js_add x PosInfinity = PosInfinity"
| "js_add NegInfinity y = NegInfinity"
| "js_add x NegInfinity = NegInfinity"

fun js_mul :: "number \<Rightarrow> number \<Rightarrow> number" where
  "js_mul (Finite x) (Finite y) = to_number (x * y)"
| "js_mul NaN y = NaN"
| "js_mul x NaN = NaN"
| "js_mul PosInfinity (Finite y) =
     (if y = 0 then NaN else if 0 < y then PosInfinity else NegInfinity)"
| "js_mul NegInfinity (Finite y) =
     (if y = 0 then NaN else if 0 < y then NegInfinity else PosInfinity)"
| "js_mul (Finite x) PosInfinity =
     (if x = 0 then NaN else if 0 < x then PosInfinity else NegInfinity)"
| "js_mul (Finite x) NegInfinity =
     (if x = 0 then NaN else if 0 < x then NegInfinity else PosInfinity)"
| "js_mul PosInfinity PosInfinity = PosInfinity"
| "js_mul PosInfinity NegInfinity = NegInfinity"
| "js_mul NegInfinity PosInfinity = NegInfinity"
| "js_mul NegInfinity NegInfinity = PosInfinity"

fun js_div :: "number \<Rightarrow> number \<Rightarrow> number" where
  "js_div (Finite x) (Finite y) =
     (if y = 0
      then (if x = 0 then NaN else if 0 < x then PosInfinity else NegInfinity)
      else to_number (x / y))"
| "js_div NaN y = NaN"
| "js_div x NaN = NaN"
| "js_div (Finite x) PosInfinity = Finite 0"
| "js_div (Finite x) NegInfinity = Finite 0"
| "js_div PosInfinity (Finite y) = (if 0 \<le> y then PosInfinity else NegInfinity)"
| "js_div NegInfinity (Finite y) = (if 0 \<le> y then NegInfinity else PosInfinity)"
| "js_div PosInfinity PosInfinity = NaN"
| "js_div PosInfinity NegInfinity = NaN"
| "js_div NegInfinity PosInfinity = NaN"
| "js_div NegInfinity NegInfinity = NaN"

subsection \<open>The overall score: two implementations\<close>

text \<open>
  The loop of \<^verbatim>\<open>calculateOverallCredibility\<close> and of \<^verbatim>\<open>updateCredibilityScore\<close>, with its
  accumulators \<^verbatim>\<open>totalWeight\<close> and \<^verbatim>\<open>weightedSum\<close>; the two differ in the weight of a
  skill, the parameter \<open>w\<close>.
\<close>

fun weight_loop ::
  "(userSkill \<Rightarrow> number) \<Rightarrow> userSkill list \<Rightarrow> number \<Rightarrow> number \<Rightarrow> number \<times> number" where
  "weight_loop w [] totalWeight weightedSum = (totalWeight, weightedSum)"
| "weight_loop w (s # ss) totalWeight weightedSum =
     weight_loop w ss
       (js_add totalWeight (w s))
       (js_add weightedSum (js_mul (Finite (credibilityScore s)) (w s)))"

text \<open>
  \<^verbatim>\<open>Math.round(weightedSum / totalWeight)\<close>; \<open>Math.round\<close> returns \<open>NaN\<close> and the
  infinities as they are.
\<close>

definition rounded_average :: "number \<times> number \<Rightarrow> error + real" where
  "rounded_average p =
     (case p of (totalWeight, weightedSum) \<Rightarrow>
        (case js_div weightedSum totalWeight of
           Finite q \<Rightarrow> Inr (Math_round q)
         | _ \<Rightarrow> Inl NotFinite))"

text \<open>In \<^verbatim>\<open>skillScoring.js\<close>: \<^verbatim>\<open>proficiencyLevel * (yearsOfExperience + 1)\<close>.\<close>

definition scoring_weight :: "userSkill \<Rightarrow> number" where
  "scoring_weight s =
     js_mul (Finite (proficiencyLevel s)) (js_add (Finite (yearsOfExperience s)) (Finite 1))"

text \<open>The value returned is \<open>Inl NotFinite\<close> when the code returns \<open>NaN\<close> or an infinity.\<close>

definition calculateOverallCredibility :: "db \<Rightarrow> nat \<Rightarrow> error + real" where
  "calculateOverallCredibility d userId =
     (case findById d userId of
        None \<Rightarrow> Inr 0
      | Some u \<Rightarrow>
          if length (skills u) = 0 then Inr 0
          else rounded_average (weight_loop scoring_weight (skills u) (Finite 0) (Finite 0)))"

text \<open>In \<^verbatim>\<open>User.js\<close>: \<^verbatim>\<open>proficiencyLevel * yearsOfExperience + 1\<close>.\<close>

definition model_weight :: "userSkill \<Rightarrow> number" where
  "model_weight s =
     js_add (js_mul (Finite (proficiencyLevel s)) (Finite (yearsOfExperience s))) (Finite 1)"

text \<open>
  \<^verbatim>\<open>updateCredibilityScore\<close> changes the document; its \<^verbatim>\<open>this.save()\<close> is the one of
  the caller, which saves the same document again. A score that is \<open>NaN\<close> or an
  infinity is no value of the field (its validators are \<^verbatim>\<open>min: 0, max: 100\<close>): the save
  is rejected, and the result is \<open>Inl NotFinite\<close>.
\<close>

definition updateCredibilityScore :: "user \<Rightarrow> error + user" where
  "updateCredibilityScore u =
     (if length (skills u) = 0 then Inr (u\<lparr>user_credibilityScore := 0\<rparr>)
      else case rounded_average (weight_loop model_weight (skills u) (Finite 0) (Finite 0)) of
             Inl e \<Rightarrow> Inl e
           | Inr r \<Rightarrow> Inr (u\<lparr>user_credibilityScore := r\<rparr>))"

subsection \<open>updateAllSkillScores\<close>

text \<open>The body of the loop: the three assignments to one element of \<^verbatim>\<open>user.skills\<close>.\<close>

definition rescore :: "db \<Rightarrow> int \<Rightarrow> nat \<Rightarrow> userSkill \<Rightarrow> userSkill" where
  "rescore d now userId us =
     (let result = calculateSkillCredibility d now userId (skill us)
      in us\<lparr>credibilityScore := totalScore result,
            isVerified := result_isVerified result,
            lastUpdated := now\<rparr>)"

definition updateAllSkillScores :: "db \<Rightarrow> int \<Rightarrow> nat \<Rightarrow> error + db" where
  "updateAllSkillScores d now userId =
     (case findById d userId of
        None \<Rightarrow> Inr d
      | Some u \<Rightarrow>
          (case updateCredibilityScore (u\<lparr>skills := map (rescore d now userId) (skills u)\<rparr>) of
             Inl e \<Rightarrow> Inl e
           | Inr u' \<Rightarrow> Inr (save d u')))"

subsection \<open>The pre-save hook of a submission\<close>

text \<open>
  \<open>scoreModified\<close> is \<^verbatim>\<open>this.isModified('score')\<close>; \<^verbatim>\<open>this.challenge\<close> is truthy when the
  reference is set.
\<close>

definition submission_pre_save :: "bool \<Rightarrow> submission \<Rightarrow> submission" where
  "submission_pre_save scoreModified s =
     (if scoreModified \<and> submission_challenge s \<noteq> None
      then s\<lparr>isPassed := (score s \<ge> 70)\<rparr>
      else s)"


subsection \<open>Ranges of the inputs and of the stored scores\<close>




text \<open>A submission is of a skill when its challenge exists and belongs to the skill.\<close>

definition for_skill :: "db \<Rightarrow> nat \<Rightarrow> submission \<Rightarrow> bool" where
  "for_skill d skillId s =
     (case populate_challenge d s of None \<Rightarrow> False | Some c \<Rightarrow> challenge_skill c = skillId)"

subsection \<open>Sample documents\<close>

definition day :: int where
  "day = 86400000"

definition owned_skill :: "real \<Rightarrow> bool \<Rightarrow> int \<Rightarrow> userSkill" where
  "owned_skill c v t =
     \<lparr>skill = 7, proficiencyLevel = 5, yearsOfExperience = 3, isVerified = v,
      credibilityScore = c, lastUpdated = t\<rparr>"

definition learner :: "real \<Rightarrow> bool \<Rightarrow> int \<Rightarrow> user" where
  "learner c v t = \<lparr>user_id = 1, skills = [owned_skill c v t], user_credibilityScore = c\<rparr>"

definition medium_challenge :: challenge where
  "medium_challenge =
     \<lparr>challenge_id = 3, challenge_skill = 7, difficulty = ''medium'', passingScore = 80\<rparr>"

definition passed_submission :: submission where
  "passed_submission =
     \<lparr>submission_user = 1, submission_challenge = Some 3, score = 90, isPassed = True,
      submission_isVerified = True, submittedAt = 0\<rparr>"

definition graded_submission :: submission where
  "graded_submission =
     \<lparr>submission_user = 1, submission_challenge = Some 3, score = 75, isPassed = False,
      submission_isVerified = False, submittedAt = 0\<rparr>"

text \<open>
  A learner with one skill, one passed submission of medium difficulty and one expert
  endorsement by a peer whose credibility is 80.
\<close>

definition ledger :: "real \<Rightarrow> bool \<Rightarrow> int \<Rightarrow> db" where
  "ledger c v t =
     \<lparr>users = [learner c v t, \<lparr>user_id = 2, skills = [], user_credibilityScore = 80\<rparr>],
      challenges = [medium_challenge],
      submissions = [passed_submission],
      endorsements = [\<lparr>endorser = 2, recipient = 1, endorsement_skill = 7,
                       level = ''expert'', weight = 9 / 10, isValid = True\<rparr>]\<rparr>"

text \<open>A learner whose only endorsement is their own.\<close>

definition self_endorsed :: "real \<Rightarrow> bool \<Rightarrow> int \<Rightarrow> db" where
  "self_endorsed c v t =
     \<lparr>users = [learner c v t],
      challenges = [],
      submissions = [],
      endorsements = [\<lparr>endorser = 1, recipient = 1, endorsement_skill = 7,
                       level = ''expert'', weight = 9 / 10, isValid = True\<rparr>]\<rparr>"

text \<open>Two peers of credibility 80, one of whom has endorsed the skill of user 1.\<close>

definition peers :: db where
  "peers = \<lparr>users = [\<lparr>user_id = 1, skills = [], user_credibilityScore = 0\<rparr>,
                     \<lparr>user_id = 2, skills = [], user_credibilityScore = 80\<rparr>,
                     \<lparr>user_id = 3, skills = [], user_credibilityScore = 80\<rparr>],
     challenges = [], submissions = [],
     endorsements = [\<lparr>endorser = 2, recipient = 1, endorsement_skill = 7, level = ''expert'',
                       weight = 9 / 10, isValid = True\<rparr>]\<rparr>"

definition late_endorsement :: "real \<Rightarrow> endorsement" where
  "late_endorsement w = \<lparr>endorser = 3, recipient = 1, endorsement_skill = 7, level = ''expert'',
                       weight = w, isValid = True\<rparr>"

text \<open>A user whose years of experience are in range and beyond any plausible value.\<close>

definition veteran :: db where
  "veteran =
     \<lparr>users = [\<lparr>user_id = 1,
                skills = [\<lparr>skill = 7, proficiencyLevel = 10, yearsOfExperience = 10 ^ 308,
                           isVerified = False, credibilityScore = 50, lastUpdated = 0\<rparr>],
                user_credibilityScore = 50\<rparr>],
      challenges = [], submissions = [], endorsements = []\<rparr>"

text \<open>
  A store in which the challenge of the only submission is gone: the reference of the
  submission points to no document.
\<close>

definition dangling :: db where
  "dangling =
     \<lparr>users = [learner 0 False 0],
      challenges = [],
      submissions = [passed_submission],
      endorsements = []\<rparr>"

text \<open>A user with two skills and no evidence.\<close>

definition two_skills :: "real \<Rightarrow> real \<Rightarrow> real \<Rightarrow> user" where
  "two_skills a b c =
     \<lparr>user_id = 1,
      skills = [\<lparr>skill = 7, proficiencyLevel = 10, yearsOfExperience = 0,
                 isVerified = False, credibilityScore = a, lastUpdated = 0\<rparr>,
                \<lparr>skill = 8, proficiencyLevel = 1, yearsOfExperience = 0,
                 isVerified = False, credibilityScore = b, lastUpdated = 0\<rparr>],
      user_credibilityScore = c\<rparr>"

definition only_user :: "user \<Rightarrow> db" where
  "only_user u = \<lparr>users = [u], challenges = [], submissions = [], endorsements = []\<rparr>"


section \<open>Properties\<close>

subsection \<open>Evaluation of the sample documents\<close>

lemmas eval_defs =
  calculateSkillCredibility_def calculateChallengeScore_def calculateEndorsementScore_def
  calculateProficiencyScore_def calculateTimeDecay_def calculateOverallCredibility_def
  find_submissions_def find_endorsements_def findById_def find_skill_def
  populate_endorser_def populate_challenge_def lookup_or_1_def LEVEL_VALUES_def
  DIFFICULTY_MULTIPLIERS_def submission_points_def for_skill_def
  updateAllSkillScores_def updateCredibilityScore_def rescore_def save_def
  rounded_average_def model_weight_def scoring_weight_def Math_round_def
  to_number_def overflow_bound_def

lemmas sample_defs =
  ledger_def learner_def owned_skill_def medium_challenge_def passed_submission_def
  graded_submission_def self_endorsed_def veteran_def dangling_def peers_def late_endorsement_def two_skills_def only_user_def day_def

subsection \<open>Look-ups\<close>

lemma findById_in_users: "findById d i = Some u \<Longrightarrow> u \<in> set (users d) \<and> user_id u = i"
  by (auto simp: findById_def find_Some_iff)

lemma find_skill_in_skills: "find_skill u i = Some s \<Longrightarrow> s \<in> set (skills u) \<and> skill s = i"
  by (auto simp: find_skill_def find_Some_iff)

lemma findById_save:
  "findById d i = Some u \<Longrightarrow> user_id u' = i \<Longrightarrow> findById (save d u') i = Some u'"
proof -
  have "find (\<lambda>u. user_id u = user_id u') (map (\<lambda>v. if user_id v = user_id u' then u' else v) us) = Some u'"
    if "find (\<lambda>u. user_id u = user_id u') us = Some u" for us
    using that by (induction us) (auto split: if_splits)
  then show "findById d i = Some u \<Longrightarrow> user_id u' = i \<Longrightarrow> findById (save d u') i = Some u'"
    by (auto simp: findById_def save_def)
qed

lemma findById_save_other: "i \<noteq> user_id u' \<Longrightarrow> findById (save d u') i = findById d i"
proof -
  have "find (\<lambda>u. user_id u = i) (map (\<lambda>v. if user_id v = user_id u' then u' else v) us)
        = find (\<lambda>u. user_id u = i) us" if "i \<noteq> user_id u'" for us
    using that by (induction us) auto
  then show "i \<noteq> user_id u' \<Longrightarrow> findById (save d u') i = findById d i"
    by (simp add: findById_def save_def)
qed

lemma save_again: "save (save d u') u' = save d u'"
  by (simp add: save_def comp_def)

subsection \<open>Bounds of the parts\<close>




lemma level_value_bounds:
  "1 \<le> lookup_or_1 LEVEL_VALUES k \<and> lookup_or_1 LEVEL_VALUES k \<le> 4"
  by (simp add: lookup_or_1_def LEVEL_VALUES_def)










subsection \<open>The weighted average\<close>










subsection \<open>Every score is in range\<close>


lemma rescore_fields:
  "skill (rescore d now userId s) = skill s
   \<and> proficiencyLevel (rescore d now userId s) = proficiencyLevel s
   \<and> yearsOfExperience (rescore d now userId s) = yearsOfExperience s
   \<and> lastUpdated (rescore d now userId s) = now
   \<and> credibilityScore (rescore d now userId s)
       = totalScore (calculateSkillCredibility d now userId (skill s))"
  by (simp add: rescore_def Let_def)







subsection \<open>The stored overall score\<close>

text \<open>
  Claim C2. After \<open>updateAllSkillScores\<close> the stored overall score should be the rounded
  average of the per-skill scores with the weights
  \<open>proficiencyLevel * (yearsOfExperience + 1)\<close>. For a user with the two skills of
  \<open>two_skills\<close> (levels 10 and 1, no experience, no evidence) the call stores the per-skill
  scores 19 and 8 and the overall score 14, where the formula of the claim gives 18:
  \<open>updateCredibilityScore\<close> weighs a skill by \<open>proficiencyLevel * yearsOfExperience + 1\<close>.
\<close>

theorem updateAllSkillScores_overall_weight:
  "updateAllSkillScores (only_user (two_skills 0 0 0)) 0 1
     = Inr (only_user (two_skills 19 8 14))
   \<and> Math_round ((19 * (10 * (0 + 1)) + 8 * (1 * (0 + 1))) / (10 * (0 + 1) + 1 * (0 + 1)))
     = 18"
  by (simp add: eval_defs sample_defs)

text \<open>
  Claim C8. \<open>calculateOverallCredibility\<close> and \<open>updateCredibilityScore\<close> should compute
  the same overall score from the same skills. For the skills of \<open>two_skills 19 8\<close> the
  first returns 18 and the second stores 14.
\<close>

theorem overall_implementations_differ:
  "calculateOverallCredibility (only_user (two_skills 19 8 0)) 1 = Inr 18
   \<and> updateCredibilityScore (two_skills 19 8 0) = Inr (two_skills 19 8 14)"
  by (simp add: eval_defs sample_defs)

subsection \<open>Recomputing twice\<close>

lemma challenge_loop_cong:
  "challenges d' = challenges d
   \<Longrightarrow> challenge_loop d' now skillId ss t m = challenge_loop d now skillId ss t m"
  by (induction ss arbitrary: t m) (simp_all add: populate_challenge_def split: option.splits)

lemma challenge_score_cong:
  "challenges d' = challenges d \<Longrightarrow> submissions d' = submissions d
   \<Longrightarrow> calculateChallengeScore d' now userId skillId = calculateChallengeScore d now userId skillId"
  using challenge_loop_cong[of d' d]
  by (simp add: calculateChallengeScore_def find_submissions_def Let_def)

lemma endorsement_loop_cong:
  "\<forall>e \<in> set es. findById d' (endorser e) = findById d (endorser e)
   \<Longrightarrow> endorsement_loop d' es a b = endorsement_loop d es a b"
  by (induction es arbitrary: a b) (simp_all add: populate_endorser_def split: option.splits)

lemma endorsement_score_cong:
  assumes "endorsements d' = endorsements d"
    and "\<forall>e \<in> set (find_endorsements d userId skillId).
           findById d' (endorser e) = findById d (endorser e)"
  shows "calculateEndorsementScore d' userId skillId = calculateEndorsementScore d userId skillId"
proof -
  have "find_endorsements d' userId skillId = find_endorsements d userId skillId"
    using assms(1) by (simp add: find_endorsements_def)
  then show ?thesis
    using endorsement_loop_cong[OF assms(2)] by (simp add: calculateEndorsementScore_def Let_def)
qed

lemma find_skill_rescored:
  "find_skill (u\<lparr>skills := map (rescore d now userId) (skills u)\<rparr>) i
     = map_option (rescore d now userId) (find_skill u i)"
proof -
  have "find (\<lambda>s. skill s = i) (map (rescore d now userId) ss)
        = map_option (rescore d now userId) (find (\<lambda>s. skill s = i) ss)" for ss
    by (induction ss) (simp_all add: rescore_fields)
  then show ?thesis by (simp add: find_skill_def)
qed

lemma updateCredibilityScore_shape:
  "updateCredibilityScore u = Inr u'
   \<Longrightarrow> user_id u' = user_id u \<and> skills u' = skills u
       \<and> updateCredibilityScore u' = Inr u'"
  by (auto simp: updateCredibilityScore_def split: if_splits sum.splits)

text \<open>
  Claim C3, as stated: two calls of \<open>updateAllSkillScores\<close> in succession at one clock
  value leave the same scores. This fails for a skill that was last updated 90 days or
  more before the clock: the first call computes with the decay of the old date and sets
  \<open>lastUpdated\<close> to the clock, so the second call computes with decay 1. For the sample
  ledger, last updated 400 days before the clock, the first call stores 39 and the
  second 67. It also fails for a person who has endorsed their own skill: the first call
  changes the credibility of the endorser, which the second call reads; the first call
  stores 33 and the second 36.
\<close>

theorem updateAllSkillScores_twice_counterexample:
  "updateAllSkillScores (ledger 0 False 0) (400 * day) 1 = Inr (ledger 39 True (400 * day))
   \<and> updateAllSkillScores (ledger 39 True (400 * day)) (400 * day) 1
       = Inr (ledger 67 True (400 * day))
   \<and> ledger 39 True (400 * day) \<noteq> ledger 67 True (400 * day)
   \<and> updateAllSkillScores (self_endorsed 0 False 0) 0 1 = Inr (self_endorsed 33 True 0)
   \<and> updateAllSkillScores (self_endorsed 33 True 0) 0 1 = Inr (self_endorsed 36 True 0)
   \<and> self_endorsed 33 True 0 \<noteq> self_endorsed 36 True 0"
  by (simp add: eval_defs sample_defs)

text \<open>
  Claim C3, amended: when every skill of the person was last updated less than 90 days
  before the clock (its decay factor is 1) and no valid endorsement of the person was
  given by the person, a second call of \<open>updateAllSkillScores\<close> at the same clock value
  changes nothing: the store after the second call is the store after the first, so the
  per-skill scores and the overall score are the same.
\<close>

theorem updateAllSkillScores_idempotent:
  assumes first: "updateAllSkillScores d now userId = Inr d1"
    and fresh: "\<forall>u. findById d userId = Some u \<longrightarrow>
                  (\<forall>s \<in> set (skills u). real_of_int (now - lastUpdated s) / 86400000 < 90)"
    and noself: "\<forall>e \<in> set (endorsements d).
                   recipient e = userId \<and> isValid e \<longrightarrow> endorser e \<noteq> userId"
  shows "updateAllSkillScores d1 now userId = Inr d1"
proof (cases "findById d userId")
  case None
  with first show ?thesis by (simp add: updateAllSkillScores_def)
next
  case (Some u)
  let ?ss = "map (rescore d now userId) (skills u)"
  from first Some obtain u' where u': "updateCredibilityScore (u\<lparr>skills := ?ss\<rparr>) = Inr u'"
    and d1: "d1 = save d u'"
    by (auto simp: updateAllSkillScores_def split: sum.splits)
  from Some have uid: "user_id u = userId" using findById_in_users by blast
  from updateCredibilityScore_shape[OF u'] uid
  have shape: "user_id u' = userId" "skills u' = ?ss" "updateCredibilityScore u' = Inr u'"
    by simp_all
  have found: "findById d1 userId = Some u'"
    unfolding d1 using findById_save[OF Some shape(1)] .
  have other: "findById d1 i = findById d i" if "i \<noteq> userId" for i
    unfolding d1 using that shape(1) by (simp add: findById_save_other)
  have fs: "find_skill u' i = map_option (rescore d now userId) (find_skill u i)" for i
    using find_skill_rescored[where u=u and d=d and now=now and userId=userId and i=i] shape(2)
    by (simp add: find_skill_def)
  have same: "calculateSkillCredibility d1 now userId i = calculateSkillCredibility d now userId i"
    for i
  proof -
    have c: "calculateChallengeScore d1 now userId i = calculateChallengeScore d now userId i"
      by (rule challenge_score_cong) (simp_all add: d1 save_def)
    have "\<forall>e \<in> set (find_endorsements d userId i).
            findById d1 (endorser e) = findById d (endorser e)"
      using noself by (auto simp: find_endorsements_def intro: other)
    then have e: "calculateEndorsementScore d1 userId i = calculateEndorsementScore d userId i"
      by (intro endorsement_score_cong) (simp_all add: d1 save_def)
    have p: "calculateProficiencyScore d1 userId i = calculateProficiencyScore d userId i"
      by (cases "find_skill u i")
        (simp_all add: calculateProficiencyScore_def found Some fs rescore_fields)
    have t0: "calculateTimeDecay d now userId i = 1"
    proof (cases "find_skill u i")
      case None
      with Some show ?thesis by (simp add: calculateTimeDecay_def)
    next
      case (Some s)
      then have "s \<in> set (skills u)" using find_skill_in_skills by blast
      with fresh \<open>findById d userId = Some u\<close>
      have "real_of_int (now - lastUpdated s) / 86400000 < 90" by blast
      with Some \<open>findById d userId = Some u\<close> show ?thesis
        by (simp add: calculateTimeDecay_def)
    qed
    have t1: "calculateTimeDecay d1 now userId i = 1"
      by (cases "find_skill u i")
        (simp_all add: calculateTimeDecay_def found fs rescore_fields)
    show ?thesis unfolding calculateSkillCredibility_def c e p t0 t1 ..
  qed
  have "rescore d1 now userId (rescore d now userId s) = rescore d now userId s" for s
    by (simp add: rescore_def same Let_def)
  then have "map (rescore d1 now userId) (skills u') = skills u'"
    unfolding shape(2) by (induction "skills u") (simp_all add: comp_def)
  then have again: "u'\<lparr>skills := map (rescore d1 now userId) (skills u')\<rparr> = u'" by simp
  have "updateAllSkillScores d1 now userId =
          (case updateCredibilityScore (u'\<lparr>skills := map (rescore d1 now userId) (skills u')\<rparr>) of
             Inl e \<Rightarrow> Inl e | Inr u'' \<Rightarrow> Inr (save d1 u''))"
    by (simp add: updateAllSkillScores_def found)
  also have "\<dots> = Inr (save d1 u')"
    unfolding again shape(3) by simp
  also have "save d1 u' = d1"
    unfolding d1 by (rule save_again)
  finally show ?thesis .
qed

theorem updateAllSkillScores_idempotent_witness:
  "updateAllSkillScores (ledger 0 False 0) 0 1 = Inr (ledger 72 True 0)
   \<and> updateAllSkillScores (ledger 72 True 0) 0 1 = Inr (ledger 72 True 0)"
proof -
  have first: "updateAllSkillScores (ledger 0 False 0) 0 1 = Inr (ledger 72 True 0)"
    by (simp add: eval_defs sample_defs)
  have fresh: "\<forall>u. findById (ledger 0 False 0) 1 = Some u \<longrightarrow>
                 (\<forall>s \<in> set (skills u). real_of_int (0 - lastUpdated s) / 86400000 < 90)"
    by (simp add: findById_def sample_defs)
  have noself: "\<forall>e \<in> set (endorsements (ledger 0 False 0)).
                  recipient e = 1 \<and> isValid e \<longrightarrow> endorser e \<noteq> 1"
    by (simp add: sample_defs)
  from first updateAllSkillScores_idempotent[OF first fresh noself] show ?thesis by simp
qed

subsection \<open>Scenario A\<close>

lemma challenge_loop_sums:
  "\<forall>s \<in> set ss. populate_challenge d s \<noteq> None \<Longrightarrow>
   challenge_loop d now skillId ss t m =
     Inr (t + (\<Sum>s\<leftarrow>filter (for_skill d skillId) ss.
                 submission_points now s (the (populate_challenge d s))),
          m + (\<Sum>s\<leftarrow>filter (for_skill d skillId) ss.
                 100 * lookup_or_1 DIFFICULTY_MULTIPLIERS
                         (difficulty (the (populate_challenge d s)))))"
proof (induction ss arbitrary: t m)
  case Nil
  then show ?case by simp
next
  case (Cons s ss)
  then obtain c where c: "populate_challenge d s = Some c" by auto
  from Cons.prems have rest: "\<forall>s \<in> set ss. populate_challenge d s \<noteq> None" by simp
  show ?case
    by (cases "challenge_skill c = skillId")
      (simp_all add: c for_skill_def Cons.IH[OF rest] algebra_simps)
qed

text \<open>
  Claim C4, as stated: for one passed submission of medium difficulty with score 90,
  submitted at the clock value, \<open>calculateChallengeScore\<close> returns
  \<open>min(100, 100 * ((40 + 27) * 1.5 + 20 * 1) / 150)\<close>, which is about 100 and clamped. The
  value is \<open>241 / 3\<close>, a little more than 80: the bound 100 is not reached.
\<close>

theorem scenario_A_counterexample:
  "calculateChallengeScore (ledger 0 False 0) 0 1 7 = Inr (241 / 3)
   \<and> calculateChallengeScore (ledger 0 False 0) 0 1 7 \<noteq> Inr 100
   \<and> (241 / 3 :: real) < 81"
  by (simp add: eval_defs sample_defs)

text \<open>
  Claim C4, amended: when the challenge of every verified, passed submission of the
  person exists and exactly one of these submissions is of the skill, of medium
  difficulty, with score 90 and submitted at the clock value, \<open>calculateChallengeScore\<close>
  returns \<open>min(100, 100 * ((40 + 27) * 1.5 + 20 * 1) / 150)\<close>, which is \<open>241 / 3\<close>, about
  80.33, below the bound 100.
\<close>

theorem scenario_A_challenge_score:
  assumes "\<forall>x \<in> set (find_submissions d userId). populate_challenge d x \<noteq> None"
    and "filter (for_skill d skillId) (find_submissions d userId) = [s]"
    and "populate_challenge d s = Some c"
    and "difficulty c = ''medium''" and "score s = 90" and "submittedAt s = now"
  shows "calculateChallengeScore d now userId skillId
           = Inr (min 100 (100 * ((40 + 27) * (3 / 2) + 20 * 1) / 150))
         \<and> min 100 (100 * ((40 + 27) * (3 / 2) + 20 * 1) / 150) = (241 / 3 :: real)"
proof -
  have ne: "find_submissions d userId \<noteq> []" using assms(2) by auto
  have mult: "lookup_or_1 DIFFICULTY_MULTIPLIERS (difficulty c) = 3 / 2"
    by (simp add: assms(4) lookup_or_1_def DIFFICULTY_MULTIPLIERS_def)
  have pts: "submission_points now s c = 241 / 2"
    by (simp add: submission_points_def mult assms(5,6))
  have "challenge_loop d now skillId (find_submissions d userId) 0 0 = Inr (241 / 2, 150)"
    by (simp add: challenge_loop_sums[OF assms(1)] assms(2,3) mult pts)
  with ne show ?thesis by (simp add: calculateChallengeScore_def)
qed

theorem scenario_A_challenge_score_witness:
  "filter (for_skill (ledger 0 False 0) 7) (find_submissions (ledger 0 False 0) 1)
     = [passed_submission]
   \<and> calculateChallengeScore (ledger 0 False 0) 0 1 7
     = Inr (min 100 (100 * ((40 + 27) * (3 / 2) + 20 * 1) / 150))"
proof -
  have a: "\<forall>x \<in> set (find_submissions (ledger 0 False 0) 1).
             populate_challenge (ledger 0 False 0) x \<noteq> None"
    by (simp add: eval_defs sample_defs)
  have b: "filter (for_skill (ledger 0 False 0) 7) (find_submissions (ledger 0 False 0) 1)
             = [passed_submission]"
    by (simp add: eval_defs sample_defs)
  have c: "populate_challenge (ledger 0 False 0) passed_submission = Some medium_challenge"
    by (simp add: eval_defs sample_defs)
  have d: "difficulty medium_challenge = ''medium''" "score passed_submission = 90"
    "submittedAt passed_submission = 0"
    by (simp_all add: sample_defs)
  from b scenario_A_challenge_score[OF a b c d] show ?thesis by blast
qed

subsection \<open>The decay factor\<close>

lemma decay_of_days:
  assumes "findById d userId = Some u" "find_skill u skillId = Some us"
  shows "calculateTimeDecay d now userId skillId =
     (let t = real_of_int (now - lastUpdated us) / 86400000
      in if t < 90 then 1 else max (1/2) (min (1 - (t - 90) / 730) 1))"
  using assms by (simp add: calculateTimeDecay_def Let_def)

text \<open>
  Claim C5. For a skill record last updated \<open>t \<ge> 0\<close> days before the clock, the decay
  factor is 1 when \<open>t < 90\<close> and \<open>1 - (t - 90) / (365 * 2)\<close> clamped to \<open>[1/2, 1]\<close>
  otherwise; it is never below \<open>1/2\<close>, never above 1, and it does not increase when the
  clock advances.
\<close>

theorem calculateTimeDecay_formula:
  assumes "findById d userId = Some u" and "find_skill u skillId = Some us"
    and "t = real_of_int (now - lastUpdated us) / 86400000" and "0 \<le> t"
    and "now \<le> now'"
  shows "calculateTimeDecay d now userId skillId =
           (if t < 90 then 1 else max (1 / 2) (min (1 - (t - 90) / (365 * 2)) 1))
         \<and> 1 / 2 \<le> calculateTimeDecay d now userId skillId
         \<and> calculateTimeDecay d now userId skillId \<le> 1
         \<and> calculateTimeDecay d now' userId skillId \<le> calculateTimeDecay d now userId skillId"
proof -
  let ?t' = "real_of_int (now' - lastUpdated us) / 86400000"
  have tt': "t \<le> ?t'" using assms(3,5) by (simp add: divide_right_mono)
  have a: "calculateTimeDecay d now userId skillId =
           (if t < 90 then 1 else max (1 / 2) (min (1 - (t - 90) / 730) 1))"
    unfolding assms(3) using decay_of_days[OF assms(1,2), of now] by (simp add: Let_def)
  have b: "calculateTimeDecay d now' userId skillId =
           (if ?t' < 90 then 1 else max (1 / 2) (min (1 - (?t' - 90) / 730) 1))"
    using decay_of_days[OF assms(1,2), of now'] by (simp add: Let_def)
  show ?thesis unfolding a b using tt' by (auto simp: max_def min_def field_simps)
qed

theorem calculateTimeDecay_formula_witness:
  "calculateTimeDecay (ledger 0 False 0) (400 * day) 1 7 = 42 / 73
   \<and> calculateTimeDecay (ledger 0 False 0) (800 * day) 1 7
       \<le> calculateTimeDecay (ledger 0 False 0) (400 * day) 1 7"
proof -
  have a: "findById (ledger 0 False 0) 1 = Some (learner 0 False 0)"
    by (simp add: eval_defs sample_defs)
  have b: "find_skill (learner 0 False 0) 7 = Some (owned_skill 0 False 0)"
    by (simp add: eval_defs sample_defs)
  have c: "(400 :: real) = real_of_int (400 * day - lastUpdated (owned_skill 0 False 0)) / 86400000"
    by (simp add: sample_defs)
  have d: "(0 :: real) \<le> 400" by simp
  have e: "400 * day \<le> 800 * day" by (simp add: day_def)
  from calculateTimeDecay_formula[OF a b c d e] show ?thesis by simp
qed

subsection \<open>No evidence\<close>

lemma challenge_loop_other_skills:
  "\<forall>s \<in> set ss. \<exists>c. populate_challenge d s = Some c \<and> challenge_skill c \<noteq> skillId
   \<Longrightarrow> challenge_loop d now skillId ss t m = Inr (t, m)"
  by (induction ss arbitrary: t m) auto

text \<open>
  Claim C6, as stated: a person without verified, passed submissions for the skill has
  challenge score 0. In the store \<open>dangling\<close> the only verified, passed submission of
  the person refers to a challenge that does not exist, so no submission is of the skill;
  the loop reads \<^verbatim>\<open>submission.challenge.skill\<close> of \<open>null\<close> and the function throws
  instead of returning 0.
\<close>

theorem zero_evidence_counterexample:
  "filter (for_skill dangling 7) (find_submissions dangling 1) = []
   \<and> calculateChallengeScore dangling 0 1 7 = Inl TypeError"
  by (simp add: eval_defs sample_defs)

text \<open>
  Claim C6, amended: without evidence the score is zero. When the challenge of every
  verified, passed submission of the person exists and none of these submissions is of
  the skill, \<open>calculateChallengeScore\<close> returns 0; when there is no valid endorsement of
  the person for the skill, \<open>calculateEndorsementScore\<close> returns 0; when the person does
  not exist or has no record of the skill, \<open>calculateProficiencyScore\<close> returns 0.
\<close>

theorem zero_evidence_zero_score:
  "((\<forall>s \<in> set (find_submissions d userId). populate_challenge d s \<noteq> None)
      \<and> filter (for_skill d skillId) (find_submissions d userId) = []
     \<longrightarrow> calculateChallengeScore d now userId skillId = Inr 0)
   \<and> (find_endorsements d userId skillId = []
     \<longrightarrow> calculateEndorsementScore d userId skillId = Inr 0)
   \<and> ((\<forall>u. findById d userId = Some u \<longrightarrow> find_skill u skillId = None)
     \<longrightarrow> calculateProficiencyScore d userId skillId = 0)"
proof (intro conjI impI)
  assume h: "(\<forall>s \<in> set (find_submissions d userId). populate_challenge d s \<noteq> None)
      \<and> filter (for_skill d skillId) (find_submissions d userId) = []"
  have "\<forall>s \<in> set (find_submissions d userId).
       \<exists>c. populate_challenge d s = Some c \<and> challenge_skill c \<noteq> skillId"
  proof
    fix s assume s: "s \<in> set (find_submissions d userId)"
    with h obtain c where c: "populate_challenge d s = Some c" by auto
    from h s have "\<not> for_skill d skillId s" by (simp add: filter_empty_conv)
    with c show "\<exists>c. populate_challenge d s = Some c \<and> challenge_skill c \<noteq> skillId"
      by (simp add: for_skill_def)
  qed
  then have "challenge_loop d now skillId (find_submissions d userId) 0 0 = Inr (0, 0)"
    by (rule challenge_loop_other_skills)
  then show "calculateChallengeScore d now userId skillId = Inr 0"
    by (simp add: calculateChallengeScore_def Let_def)
next
  assume "find_endorsements d userId skillId = []"
  then show "calculateEndorsementScore d userId skillId = Inr 0"
    by (simp add: calculateEndorsementScore_def Let_def)
next
  assume "\<forall>u. findById d userId = Some u \<longrightarrow> find_skill u skillId = None"
  then show "calculateProficiencyScore d userId skillId = 0"
    by (simp add: calculateProficiencyScore_def split: option.splits)
qed

theorem zero_evidence_zero_score_witness:
  "find_submissions (ledger 0 False 0) 1 = [passed_submission]
   \<and> populate_challenge (ledger 0 False 0) passed_submission = Some medium_challenge
   \<and> calculateChallengeScore (ledger 0 False 0) 0 1 8 = Inr 0
   \<and> calculateEndorsementScore (ledger 0 False 0) 1 8 = Inr 0
   \<and> calculateProficiencyScore (ledger 0 False 0) 1 8 = 0"
proof -
  have s: "find_submissions (ledger 0 False 0) 1 = [passed_submission]"
    "populate_challenge (ledger 0 False 0) passed_submission = Some medium_challenge"
    by (simp_all add: eval_defs sample_defs)
  have a: "(\<forall>s \<in> set (find_submissions (ledger 0 False 0) 1).
              populate_challenge (ledger 0 False 0) s \<noteq> None)
           \<and> filter (for_skill (ledger 0 False 0) 8) (find_submissions (ledger 0 False 0) 1) = []"
    by (simp add: eval_defs sample_defs)
  have b: "find_endorsements (ledger 0 False 0) 1 8 = []"
    by (simp add: eval_defs sample_defs)
  have c: "\<forall>u. findById (ledger 0 False 0) 1 = Some u \<longrightarrow> find_skill u 8 = None"
    by (simp add: eval_defs sample_defs)
  from s a b c
    zero_evidence_zero_score[where d = "ledger 0 False 0" and userId = 1 and skillId = 8 and now = 0]
  show ?thesis by blast
qed

subsection \<open>One more endorsement\<close>

lemma endorsement_loop_constant:
  "\<forall>x \<in> set es. level x = l \<and> weight x = w
      \<and> (\<exists>u. populate_endorser d x = Some u \<and> user_credibilityScore u = c)
   \<Longrightarrow> endorsement_loop d es a b =
         Inr (a + real (length es) * lookup_or_1 LEVEL_VALUES l, b + real (length es) * (c * w))"
proof (induction es arbitrary: a b)
  case Nil
  then show ?case by simp
next
  case (Cons e es)
  then obtain u where u: "populate_endorser d e = Some u" "user_credibilityScore u = c"
    and e: "level e = l" "weight e = w" by auto
  from Cons.prems have rest: "\<forall>x \<in> set es. level x = l \<and> weight x = w
      \<and> (\<exists>u. populate_endorser d x = Some u \<and> user_credibilityScore u = c)" by simp
  show ?case by (simp add: u e Cons.IH[OF rest] algebra_simps)
qed

lemma endorsement_score_constant:
  assumes "\<forall>x \<in> set (find_endorsements d userId skillId). level x = l \<and> weight x = w
      \<and> (\<exists>u. populate_endorser d x = Some u \<and> user_credibilityScore u = c)"
    and "find_endorsements d userId skillId \<noteq> []"
    and "n = real (length (find_endorsements d userId skillId))"
  shows "calculateEndorsementScore d userId skillId =
     Inr (min (lookup_or_1 LEVEL_VALUES l / 4 * 50 + c * w / 100 * 30 + min (n * 2) 20) 100)"
proof -
  let ?lv = "lookup_or_1 LEVEL_VALUES l"
  have n: "0 < n" using assms(2,3) by simp
  have loop: "endorsement_loop d (find_endorsements d userId skillId) 0 0
                = Inr (n * ?lv, n * (c * w))"
    using endorsement_loop_constant[OF assms(1), of 0 0] by (simp add: assms(3))
  have l: "n * ?lv / (n * 4) * 50 = ?lv / 4 * 50" using n by simp
  have r: "n * (c * w) / (n * 100) * 30 = c * w / 100 * 30" using n by simp
  have "calculateEndorsementScore d userId skillId =
          Inr (min (n * ?lv / (n * 4) * 50 + n * (c * w) / (n * 100) * 30 + min (n * 2) 20) 100)"
    unfolding calculateEndorsementScore_def Let_def loop assms(3) using assms(2) by simp
  then show ?thesis by (simp only: l r)
qed

text \<open>
  Claim C7, as stated: a new endorsement of the same level, by an endorser of the same
  credibility, never lowers the endorsement score. The stored weight of an endorsement
  is a third input: an expert endorsement of weight \<open>9/10\<close> by a peer of credibility 80
  scores \<open>73.6\<close>, and a second expert endorsement, of weight \<open>1/2\<close>, by another peer of
  credibility 80 lowers the score to \<open>70.8\<close>.
\<close>

theorem endorsement_count_counterexample:
  "calculateEndorsementScore peers 1 7 = Inr (368 / 5)
   \<and> calculateEndorsementScore (peers\<lparr>endorsements := endorsements peers @ [late_endorsement (1 / 2)]\<rparr>) 1 7
       = Inr (354 / 5)
   \<and> (354 / 5 :: real) < 368 / 5"
  by (simp add: eval_defs sample_defs)

text \<open>
  Claim C7, amended: when the valid endorsements of the person for the skill and the new
  one have the same level, the same weight in \<open>[0, 1]\<close> and endorsers of the same
  credibility in \<open>[0, 100]\<close>, and fewer than ten such endorsements exist, adding the new
  endorsement does not lower the endorsement score: it raises the score, by 2 in exact
  arithmetic and so by at least 1 in the arithmetic of the code. The bound on the number
  is needed for the code: from ten endorsements on the count bonus is 20 and the exact
  score stays the same when one more is added, so the order of the two results of the
  code is decided by the rounding of its doubles, which this model does not describe.
\<close>

theorem endorsement_count_monotone:
  assumes "recipient e = userId" and "endorsement_skill e = skillId" and "isValid e"
    and "\<forall>x \<in> set (find_endorsements d userId skillId). level x = level e \<and> weight x = weight e
      \<and> (\<exists>u. populate_endorser d x = Some u \<and> user_credibilityScore u = c)"
    and "\<exists>u. populate_endorser d e = Some u \<and> user_credibilityScore u = c"
    and "0 \<le> c" and "c \<le> 100" and "0 \<le> weight e" and "weight e \<le> 1"
    and "length (find_endorsements d userId skillId) < 10"
  shows "\<exists>a b. calculateEndorsementScore d userId skillId = Inr a
           \<and> calculateEndorsementScore (d\<lparr>endorsements := endorsements d @ [e]\<rparr>) userId skillId = Inr b
           \<and> a \<le> b \<and> a + 1 \<le> b"
proof -
  let ?d' = "d\<lparr>endorsements := endorsements d @ [e]\<rparr>"
  let ?es = "find_endorsements d userId skillId"
  let ?n = "real (length ?es)"
  let ?q = "lookup_or_1 LEVEL_VALUES (level e) / 4 * 50 + c * weight e / 100 * 30"
  have es': "find_endorsements ?d' userId skillId = ?es @ [e]"
    using assms(1-3) by (simp add: find_endorsements_def)
  have pop: "populate_endorser ?d' x = populate_endorser d x" for x
    by (simp add: populate_endorser_def findById_def)
  have all': "\<forall>x \<in> set (find_endorsements ?d' userId skillId). level x = level e \<and> weight x = weight e
      \<and> (\<exists>u. populate_endorser ?d' x = Some u \<and> user_credibilityScore u = c)"
    using assms(4,5) by (auto simp: es' pop)
  have after: "calculateEndorsementScore ?d' userId skillId =
      Inr (min (?q + min ((?n + 1) * 2) 20) 100)"
    using endorsement_score_constant[OF all' _ refl] by (simp add: es')
  have "0 \<le> c * weight e" using assms(6,8) by simp
  moreover have "c * weight e \<le> 100 * 1" using assms(6-9) by (intro mult_mono) simp_all
  ultimately have q: "25 / 2 \<le> ?q" "?q \<le> 80"
    using level_value_bounds[of "level e"] by simp_all
  have n: "?n \<le> 9" using assms(10) by simp
  have b: "min (?q + min ((?n + 1) * 2) 20) 100 = ?q + ?n * 2 + 2"
    using q n by (simp add: min_def)
  show ?thesis
  proof (cases "?es = []")
    case True
    then have "calculateEndorsementScore d userId skillId = Inr 0"
      by (simp add: calculateEndorsementScore_def)
    moreover have "(0::real) \<le> ?q + ?n * 2 + 2" "(0::real) + 1 \<le> ?q + ?n * 2 + 2"
      using q by simp_all
    ultimately show ?thesis using after b by auto
  next
    case False
    have "calculateEndorsementScore d userId skillId =
      Inr (min (?q + min (?n * 2) 20) 100)"
      using endorsement_score_constant[OF assms(4) False refl] .
    moreover have "min (?q + min (?n * 2) 20) 100 = ?q + ?n * 2"
      using q n by (simp add: min_def)
    ultimately show ?thesis using after b by auto
  qed
qed

theorem endorsement_count_monotone_witness:
  "calculateEndorsementScore peers 1 7 = Inr (368 / 5)
   \<and> calculateEndorsementScore
        (peers\<lparr>endorsements := endorsements peers @ [late_endorsement (9 / 10)]\<rparr>) 1 7
       = Inr (378 / 5)"
proof -
  have a: "recipient (late_endorsement (9 / 10)) = 1"
    "endorsement_skill (late_endorsement (9 / 10)) = 7" "isValid (late_endorsement (9 / 10))"
    by (simp_all add: sample_defs)
  have b: "\<forall>x \<in> set (find_endorsements peers 1 7).
             level x = level (late_endorsement (9 / 10))
             \<and> weight x = weight (late_endorsement (9 / 10))
             \<and> (\<exists>u. populate_endorser peers x = Some u \<and> user_credibilityScore u = 80)"
    by (simp add: eval_defs sample_defs)
  have c: "\<exists>u. populate_endorser peers (late_endorsement (9 / 10)) = Some u
             \<and> user_credibilityScore u = 80"
    by (simp add: eval_defs sample_defs)
  have d: "(0 :: real) \<le> 80" "(80 :: real) \<le> 100" "0 \<le> weight (late_endorsement (9 / 10))"
    "weight (late_endorsement (9 / 10)) \<le> 1"
    by (simp_all add: sample_defs)
  have n: "length (find_endorsements peers 1 7) < 10"
    by (simp add: eval_defs sample_defs)
  from endorsement_count_monotone[OF a b c d n] obtain x y where
    "calculateEndorsementScore peers 1 7 = Inr x"
    "calculateEndorsementScore
       (peers\<lparr>endorsements := endorsements peers @ [late_endorsement (9 / 10)]\<rparr>) 1 7 = Inr y"
    "x \<le> y" by blast
  moreover have "calculateEndorsementScore peers 1 7 = Inr (368 / 5)"
    by (simp add: eval_defs sample_defs)
  moreover have "calculateEndorsementScore
       (peers\<lparr>endorsements := endorsements peers @ [late_endorsement (9 / 10)]\<rparr>) 1 7
       = Inr (378 / 5)"
    by (simp add: eval_defs sample_defs)
  ultimately show ?thesis by simp
qed

subsection \<open>The pre-save hook\<close>

text \<open>
  Claim C9. When the score of a submission was modified (and its challenge reference is
  set, as the schema requires), the pre-save hook sets \<open>isPassed\<close> to \<open>score \<ge> 70\<close> and
  changes nothing else; the hook does not read the challenge, so its \<open>passingScore\<close>
  has no part in the result.
\<close>

theorem submission_pre_save_threshold:
  "submission_challenge s = Some c
   \<Longrightarrow> isPassed (submission_pre_save True s) = (score s \<ge> 70)
       \<and> submission_pre_save True s = s\<lparr>isPassed := (score s \<ge> 70)\<rparr>"
  by (simp add: submission_pre_save_def)

theorem submission_pre_save_threshold_witness:
  "populate_challenge (ledger 0 False 0) graded_submission = Some medium_challenge
   \<and> passingScore medium_challenge = 80
   \<and> score graded_submission = 75
   \<and> isPassed (submission_pre_save True graded_submission)"
proof -
  have a: "submission_challenge graded_submission = Some 3"
    by (simp add: sample_defs)
  have "populate_challenge (ledger 0 False 0) graded_submission = Some medium_challenge"
    "passingScore medium_challenge = 80" "score graded_submission = 75"
    by (simp_all add: eval_defs sample_defs)
  with submission_pre_save_threshold[OF a] show ?thesis by simp
qed

subsection \<open>A missing record\<close>

text \<open>
  Claim C10. When the person does not exist, or exists and has no record of the skill,
  \<open>calculateTimeDecay\<close> returns 1, the most favourable factor, and does not fail.
\<close>

theorem calculateTimeDecay_missing_record:
  "findById d userId = None \<or> (\<exists>u. findById d userId = Some u \<and> find_skill u skillId = None)
   \<Longrightarrow> calculateTimeDecay d now userId skillId = 1"
  by (auto simp: calculateTimeDecay_def)

theorem calculateTimeDecay_missing_record_witness:
  "findById (ledger 0 False 0) 9 = None
   \<and> calculateTimeDecay (ledger 0 False 0) 0 9 7 = 1
   \<and> calculateTimeDecay (ledger 0 False 0) 0 1 8 = 1"
proof -
  have a: "findById (ledger 0 False 0) 9 = None"
    by (simp add: eval_defs sample_defs)
  have b: "\<exists>u. findById (ledger 0 False 0) 1 = Some u \<and> find_skill u 8 = None"
    by (simp add: eval_defs sample_defs)
  from a calculateTimeDecay_missing_record[where d = "ledger 0 False 0" and userId = 9, OF disjI1, OF a]
    calculateTimeDecay_missing_record[where d = "ledger 0 False 0" and userId = 1 and skillId = 8,
      OF disjI2, OF b]
  show ?thesis by blast
qed

end
